theory Spec2Isabelle
  imports Complex_Main
begin

section \<open>Python values\<close>

text \<open>
  The two source files are Python. An attribute of an object, and a value stored in an
  event dictionary, may be any Python value; the ones that occur here are \<open>None\<close>,
  booleans, unbounded integers, strings, a \<open>datetime\<close> (kept as its ISO text), a member
  of the enum \<open>EventSource\<close>, lists and string-keyed dictionaries.
\<close>

datatype EventSource = AGENT | USER

datatype pyval =
    PNone
  | PBool bool
  | PInt int
  | PStr string
  | PDatetime string
  | PSource EventSource
  | PList "pyval list"
  | PDict "(string \<times> pyval) list"

section \<open>openhands/events/event.py\<close>

text \<open>
  \<open>Event\<close> declares no field. Every accessor probes the instance with \<open>hasattr\<close>, so
  an instance is modelled by the attributes it has: a map from attribute names to values.
  A name outside the domain is an attribute the instance lacks; a name mapped to \<open>PNone\<close>
  is an attribute that is set, to \<open>None\<close>.
\<close>

type_synonym event_obj = "string \<rightharpoonup> pyval"

definition hasattr :: "event_obj \<Rightarrow> string \<Rightarrow> bool" where
  "hasattr self name = (self name \<noteq> None)"

definition getattr :: "event_obj \<Rightarrow> string \<Rightarrow> pyval" where
  "getattr self name = the (self name)"

definition message :: "event_obj \<Rightarrow> pyval" where
  "message self =
     (if hasattr self ''_message'' then getattr self ''_message'' else PStr '''')"

definition id_prop :: "event_obj \<Rightarrow> pyval" where
  "id_prop self =
     (if hasattr self ''_id'' then getattr self ''_id'' else PInt (- 1))"

definition timestamp :: "event_obj \<Rightarrow> pyval" where
  "timestamp self =
     (if hasattr self ''_timestamp'' then getattr self ''_timestamp'' else PNone)"

definition source :: "event_obj \<Rightarrow> pyval" where
  "source self =
     (if hasattr self ''_source'' then getattr self ''_source'' else PNone)"

definition cause :: "event_obj \<Rightarrow> pyval" where
  "cause self =
     (if hasattr self ''_cause'' then getattr self ''_cause'' else PNone)"

definition timeout :: "event_obj \<Rightarrow> pyval" where
  "timeout self =
     (if hasattr self ''_timeout'' then getattr self ''_timeout'' else PNone)"

text \<open>
  The setter of \<open>timeout\<close>: the assignment to \<open>_timeout\<close> comes first, the probe for
  \<open>blocking\<close> reads the instance after it.
\<close>

definition timeout_setter :: "event_obj \<Rightarrow> pyval \<Rightarrow> event_obj" where
  "timeout_setter self v =
     (let self1 = self(''_timeout'' \<mapsto> v)
      in if hasattr self1 ''blocking''
         then self1(''blocking'' \<mapsto> PBool True)
         else self1)"

section \<open>openhands/memory/memory.py: the module level\<close>

text \<open>
  Exceptions are values. The three classes named by the retry policy are constructors of
  their own; \<open>OtherError\<close> stands for an exception of any other class.
\<close>

datatype exn =
    ImportError string
  | ValueError string
  | RateLimitError
  | APIConnectionError
  | InternalServerError
  | OtherError string

text \<open>
  The external libraries are not part of the repository. Each call into them is a
  constructor of \<open>ext_call\<close>; the trace of a run is the list of calls made, in order.
\<close>

datatype embed_model =
    OllamaEmbedding string "string option"
  | OpenAIEmbedding string "string option"
  | AzureOpenAIEmbedding string "string option" "string option" "string option" "string option"
  | HuggingFaceEmbedding string

datatype ext_call =
    ChromaClient
  | GetOrCreateCollection string
  | NewChromaVectorStore
  | ImportModule string
  | NewEmbedding embed_model
  | FromVectorStore "embed_model option"

record document =
  doc_text :: string
  doc_id :: string
  info_type :: string
  info_id :: pyval
  info_idx :: int

record node_with_score =
  get_text :: string
  node_id :: string

text \<open>
  What the code takes from its surroundings: which modules can be imported, whether the
  library's \<open>get_embeddings\<close> carries a \<open>__wrapped__\<close> attribute, which external call
  raises, the serializer \<open>json.dumps\<close> of \<open>openhands.core.utils\<close>, and the retriever
  of the index (a function of the documents inserted so far, the query and the requested
  number of results).
\<close>

record py_env =
  importable :: "string \<Rightarrow> bool"
  has_wrapped :: bool
  raises :: "ext_call \<Rightarrow> exn option"
  json_dumps :: "(string \<rightharpoonup> pyval) \<Rightarrow> string"
  retrieve :: "document list \<Rightarrow> string \<Rightarrow> int \<Rightarrow> exn + node_with_score list"

text \<open>
  Modelled from the spec: the configuration object \<open>LLMConfig\<close> of
  \<open>openhands.core.config\<close> is not among the sources; it supplies the embedding strategy
  and the connection parameters that \<open>get_embedding_model\<close> reads.
\<close>

record LLMConfig =
  embedding_model :: "string option"
  embedding_base_url :: "string option"
  api_key :: "string option"
  embedding_deployment_name :: "string option"
  base_url :: "string option"
  api_version :: "string option"

text \<open>The \<open>try\<close> block at the top of the module: the flag is true when all five imports succeed.\<close>

definition LLAMA_INDEX_AVAILABLE :: "py_env \<Rightarrow> bool" where
  "LLAMA_INDEX_AVAILABLE env =
     (importable env ''chromadb'' \<and>
      importable env ''llama_index.embeddings.openai.base'' \<and>
      importable env ''llama_index.core'' \<and>
      importable env ''llama_index.core.retrievers'' \<and>
      importable env ''llama_index.vector_stores.chroma'')"

text \<open>
  \<open>num_retries\<close> is 10, and is reset to 1 when the library function has no
  \<open>__wrapped__\<close> attribute.
\<close>

definition num_retries :: "py_env \<Rightarrow> nat" where
  "num_retries env = (if has_wrapped env then 10 else 1)"

definition retry_min_wait :: int where
  "retry_min_wait = 3"

definition retry_max_wait :: int where
  "retry_max_wait = 300"

definition retry_if_exception_type :: "exn \<Rightarrow> bool" where
  "retry_if_exception_type e =
     (e = RateLimitError \<or> e = APIConnectionError \<or> e = InternalServerError)"

text \<open>
  Modelled from the spec: \<open>wait_random_exponential(min, max)\<close> of the library tenacity
  is not among the sources. It gives a randomized exponential backoff between the minimum
  and the maximum wait: the pause after the \<open>k\<close>-th attempt is drawn at random between
  the minimum wait and a bound that doubles with every attempt and is kept between the
  minimum and the maximum wait. The random draw is a parameter: \<open>u\<close> is the number
  between 0 and 1 that the generator returns.
\<close>

definition backoff_cap :: "nat \<Rightarrow> real" where
  "backoff_cap k =
     max (real_of_int retry_min_wait) (min (2 ^ (k - 1)) (real_of_int retry_max_wait))"

definition wait_random_exponential :: "real \<Rightarrow> nat \<Rightarrow> real" where
  "wait_random_exponential u k =
     real_of_int retry_min_wait + u * (backoff_cap k - real_of_int retry_min_wait)"

text \<open>
  The outcome of one run of the decorated function: what it returned or raised, how many
  times the wrapped function was called, the lines \<open>attempt_on_error\<close> logged (the
  exception and the attempt number of each), and the pauses slept between the attempts.
\<close>

record 'a retry_run =
  outcome :: "exn + 'a"
  attempts :: nat
  error_log :: "(exn \<times> nat) list"
  pauses :: "real list"

text \<open>
  Modelled from the spec: the decorator \<open>retry\<close> of the library tenacity is not among
  the sources. With the arguments given in the source (\<open>reraise=True\<close>,
  \<open>stop_after_attempt(n)\<close>, \<open>wait_random_exponential\<close>, \<open>retry_if_exception_type\<close>,
  \<open>after=attempt_on_error\<close>) it retries up to \<open>n\<close> attempts on the listed error
  classes, logs each failed attempt, pauses before the next attempt, and on exhaustion
  re-raises the final error. The wrapped call is effectful, so \<open>call k\<close> is the outcome
  of its \<open>k\<close>-th invocation, counted from 1, and \<open>jitter k\<close> is the random draw for
  the pause after it.
\<close>

function retrying ::
  "nat \<Rightarrow> (nat \<Rightarrow> real) \<Rightarrow> (nat \<Rightarrow> exn + 'a) \<Rightarrow> nat \<Rightarrow> (exn \<times> nat) list \<Rightarrow> real list \<Rightarrow>
   'a retry_run" where
  "retrying n jitter call k logged ws =
     (case call k of
        Inr v \<Rightarrow> \<lparr>outcome = Inr v, attempts = k, error_log = logged, pauses = ws\<rparr>
      | Inl e \<Rightarrow>
          if \<not> retry_if_exception_type e
          then \<lparr>outcome = Inl e, attempts = k, error_log = logged, pauses = ws\<rparr>
          else if n \<le> k
          then \<lparr>outcome = Inl e, attempts = k, error_log = logged @ [(e, k)], pauses = ws\<rparr>
          else retrying n jitter call (Suc k) (logged @ [(e, k)])
                 (ws @ [wait_random_exponential (jitter k) k]))"
  by pat_completeness auto
termination
  by (relation "measure (\<lambda>(n, jitter, call, k, logged, ws). n - k)") auto

declare retrying.simps [simp del]

definition wrapper_get_embeddings ::
  "py_env \<Rightarrow> (nat \<Rightarrow> real) \<Rightarrow> (nat \<Rightarrow> exn + 'a) \<Rightarrow> 'a retry_run" where
  "wrapper_get_embeddings env jitter original_get_embeddings =
     retrying (num_retries env) jitter original_get_embeddings 1 [] []"

section \<open>EmbeddingsLoader\<close>

text \<open>
  An external call is appended to the trace and then either raises or lets the rest of
  the code run.
\<close>

definition ext ::
  "py_env \<Rightarrow> ext_call \<Rightarrow> ext_call list \<Rightarrow> (ext_call list \<Rightarrow> ext_call list \<times> (exn + 'a)) \<Rightarrow>
   ext_call list \<times> (exn + 'a)" where
  "ext env c tr cont =
     (case raises env c of
        Some e \<Rightarrow> (tr @ [c], Inl e)
      | None \<Rightarrow> cont (tr @ [c]))"

text \<open>A function-local \<open>from m import ...\<close>: raises \<open>ImportError\<close> when the module is missing.\<close>

definition import_module ::
  "py_env \<Rightarrow> string \<Rightarrow> ext_call list \<Rightarrow> (ext_call list \<Rightarrow> ext_call list \<times> (exn + 'a)) \<Rightarrow>
   ext_call list \<times> (exn + 'a)" where
  "import_module env m tr cont =
     (if importable env m then cont (tr @ [ImportModule m])
      else (tr @ [ImportModule m], Inl (ImportError m)))"

definition supported_ollama_embed_models :: "string list" where
  "supported_ollama_embed_models =
     [''llama2'', ''mxbai-embed-large'', ''nomic-embed-text'', ''all-minilm'',
      ''stable-code'', ''bge-m3'', ''bge-large'', ''paraphrase-multilingual'',
      ''snowflake-arctic-embed'']"

text \<open>\<open>str.lower\<close> on the ASCII letters, which is all the comparison with \<open>'none'\<close> needs.\<close>

definition lower_char :: "char \<Rightarrow> char" where
  "lower_char c =
     (case map_of (zip ''ABCDEFGHIJKLMNOPQRSTUVWXYZ'' ''abcdefghijklmnopqrstuvwxyz'') c of
        Some d \<Rightarrow> d
      | None \<Rightarrow> c)"

definition lower :: "string \<Rightarrow> string" where
  "lower s = map lower_char s"

definition get_embedding_model ::
  "py_env \<Rightarrow> string option \<Rightarrow> LLMConfig \<Rightarrow> ext_call list \<Rightarrow>
   ext_call list \<times> (exn + embed_model option)" where
  "get_embedding_model env strategy llm_config tr =
     (if strategy \<in> Some ` set supported_ollama_embed_models then
        import_module env ''llama_index.embeddings.ollama'' tr (\<lambda>tr.
          let m = OllamaEmbedding (the strategy) (embedding_base_url llm_config)
          in ext env (NewEmbedding m) tr (\<lambda>tr. (tr, Inr (Some m))))
      else if strategy = Some ''openai'' then
        import_module env ''llama_index.embeddings.openai'' tr (\<lambda>tr.
          let m = OpenAIEmbedding ''text-embedding-ada-002'' (api_key llm_config)
          in ext env (NewEmbedding m) tr (\<lambda>tr. (tr, Inr (Some m))))
      else if strategy = Some ''azureopenai'' then
        import_module env ''llama_index.embeddings.azure_openai'' tr (\<lambda>tr.
          let m = AzureOpenAIEmbedding ''text-embedding-ada-002''
                    (embedding_deployment_name llm_config) (api_key llm_config)
                    (base_url llm_config) (api_version llm_config)
          in ext env (NewEmbedding m) tr (\<lambda>tr. (tr, Inr (Some m))))
      else if strategy \<noteq> None \<and> lower (the strategy) = ''none'' then
        (tr, Inr None)
      else
        import_module env ''llama_index.embeddings.huggingface'' tr (\<lambda>tr.
          let m = HuggingFaceEmbedding ''BAAI/bge-small-en-v1.5''
          in ext env (NewEmbedding m) tr (\<lambda>tr. (tr, Inr (Some m)))))"

section \<open>LongTermMemory\<close>

text \<open>
  \<open>_add_doc\<close> is the body of one thread: enter the \<open>with\<close> block (acquire a permit),
  insert, leave the block (release the permit, also when the insert raised). A thread is
  the document it was given and the point it has reached.
\<close>

datatype pc = Acquire | Insert | Release "exn option" | Finished "exn option"

record thread =
  doc :: document
  stage :: pc

text \<open>
  The state of a \<open>LongTermMemory\<close>: the permits the semaphore has left, the sequence
  counter, the threads started so far in call order, the documents the index has received
  from them, and the lines written by \<open>logger.debug\<close> (the tag and the number logged).
\<close>

record ltm =
  sema :: int
  thought_idx :: int
  add_threads :: "thread list"
  index :: "document list"
  debug_log :: "(string \<times> int) list"

definition missing_dependency :: exn where
  "missing_dependency =
     ImportError (''llama_index and its dependencies are not installed. '' @
       ''To use LongTermMemory, please run: poetry install --with llama-index'')"

text \<open>
  \<open>__init__\<close>. The result is the trace of external calls made and either the exception
  raised or the new object. \<open>threading.Semaphore\<close> raises \<open>ValueError\<close> on a negative
  initial value.
\<close>

definition init :: "py_env \<Rightarrow> LLMConfig \<Rightarrow> int \<Rightarrow> ext_call list \<times> (exn + ltm)" where
  "init env llm_config memory_max_threads =
     (if \<not> LLAMA_INDEX_AVAILABLE env then ([], Inl missing_dependency)
      else
        ext env ChromaClient [] (\<lambda>tr.
        ext env (GetOrCreateCollection ''memories'') tr (\<lambda>tr.
        ext env NewChromaVectorStore tr (\<lambda>tr.
        case get_embedding_model env (embedding_model llm_config) llm_config tr of
          (tr, Inl e) \<Rightarrow> (tr, Inl e)
        | (tr, Inr embed_model) \<Rightarrow>
            ext env (FromVectorStore embed_model) tr (\<lambda>tr.
              if memory_max_threads < 0
              then (tr, Inl (ValueError ''semaphore initial value must be >= 0''))
              else (tr, Inr \<lparr>sema = memory_max_threads, thought_idx = 0,
                              add_threads = [], index = [], debug_log = []\<rparr>))))))"

text \<open>Python's \<open>str\<close> on an integer: decimal digits, with a minus sign when negative.\<close>

definition digit_char :: "nat \<Rightarrow> char" where
  "digit_char d = ''0123456789'' ! d"

function str_nat :: "nat \<Rightarrow> string" where
  "str_nat n = (if n < 10 then [digit_char n] else str_nat (n div 10) @ [digit_char (n mod 10)])"
  by pat_completeness auto
termination
  by (relation "measure (\<lambda>n. n)") auto

definition str_int :: "int \<Rightarrow> string" where
  "str_int i = (if i < 0 then CHR ''-'' # str_nat (nat (- i)) else str_nat (nat i))"

text \<open>
  \<open>add_event\<close>. The event is a dictionary; \<open>'action' in event\<close> is membership in its
  domain. Starting the thread puts it in front of the \<open>with\<close> block.
\<close>

definition add_event :: "py_env \<Rightarrow> ltm \<Rightarrow> (string \<rightharpoonup> pyval) \<Rightarrow> ltm" where
  "add_event env self event =
     (let (t, i) =
            (if event ''action'' \<noteq> None then (''action'', the (event ''action''))
             else if event ''observation'' \<noteq> None
             then (''observation'', the (event ''observation''))
             else ('''', PStr ''''));
          d = \<lparr>doc_text = json_dumps env event,
               doc_id = str_int (thought_idx self),
               info_type = t, info_id = i, info_idx = thought_idx self\<rparr>;
          self1 = self\<lparr>thought_idx := thought_idx self + 1\<rparr>;
          self2 = self1\<lparr>debug_log := debug_log self1 @ [(t, thought_idx self1)]\<rparr>
      in self2\<lparr>add_threads := add_threads self2 @ [\<lparr>doc = d, stage = Acquire\<rparr>]\<rparr>)"

text \<open>
  \<open>_add_doc\<close> runs in a thread of its own, so a run of the program is an interleaving
  of the caller's calls of \<open>add_event\<close> with the moves of the started threads. One
  action is one atomic move: a call of \<open>add_event\<close>; thread \<open>i\<close> entering the
  \<open>with\<close> block, which takes a permit and is possible only when one is left; the insert
  of thread \<open>i\<close> returning, or raising; thread \<open>i\<close> leaving the block, which gives
  the permit back. \<open>exec\<close> is \<open>None\<close> when the action is not possible in the state.
\<close>

datatype action =
    CallAddEvent "string \<rightharpoonup> pyval"
  | Enter nat
  | InsertReturns nat
  | InsertRaises nat exn
  | Leave nat

definition move :: "ltm \<Rightarrow> nat \<Rightarrow> pc \<Rightarrow> ltm" where
  "move self i p = self\<lparr>add_threads := (add_threads self)[i := (add_threads self ! i)\<lparr>stage := p\<rparr>]\<rparr>"

fun exec :: "py_env \<Rightarrow> ltm \<Rightarrow> action \<Rightarrow> ltm option" where
  "exec env s (CallAddEvent event) = Some (add_event env s event)"
| "exec env s (Enter i) =
     (if i < length (add_threads s) \<and> stage (add_threads s ! i) = Acquire \<and> 0 < sema s
      then Some ((move s i Insert)\<lparr>sema := sema s - 1\<rparr>)
      else None)"
| "exec env s (InsertReturns i) =
     (if i < length (add_threads s) \<and> stage (add_threads s ! i) = Insert
      then Some ((move s i (Release None))\<lparr>index := index s @ [doc (add_threads s ! i)]\<rparr>)
      else None)"
| "exec env s (InsertRaises i e) =
     (if i < length (add_threads s) \<and> stage (add_threads s ! i) = Insert
      then Some (move s i (Release (Some e)))
      else None)"
| "exec env s (Leave i) =
     (if i < length (add_threads s)
      then (case stage (add_threads s ! i) of
              Release r \<Rightarrow> Some ((move s i (Finished r))\<lparr>sema := sema s + 1\<rparr>)
            | _ \<Rightarrow> None)
      else None)"

fun run :: "py_env \<Rightarrow> ltm \<Rightarrow> action list \<Rightarrow> ltm option" where
  "run env s [] = Some s"
| "run env s (a # as) = (case exec env s a of None \<Rightarrow> None | Some s' \<Rightarrow> run env s' as)"

text \<open>The events passed to \<open>add_event\<close> in a run, in call order.\<close>

fun calls :: "action list \<Rightarrow> (string \<rightharpoonup> pyval) list" where
  "calls [] = []"
| "calls (CallAddEvent event # as) = event # calls as"
| "calls (a # as) = calls as"

text \<open>The threads that are executing the index write, and those that hold a permit.\<close>

fun holds_permit :: "pc \<Rightarrow> bool" where
  "holds_permit Insert = True"
| "holds_permit (Release r) = True"
| "holds_permit p = False"

definition inserting :: "ltm \<Rightarrow> nat" where
  "inserting s = length (filter (\<lambda>t. stage t = Insert) (add_threads s))"

definition holding :: "ltm \<Rightarrow> nat" where
  "holding s = length (filter (\<lambda>t. holds_permit (stage t)) (add_threads s))"


section \<open>Auxiliary notions and example inputs\<close>

text \<open>An attempt fails transiently when it raises one of the three retried classes.\<close>

definition transient_failure :: "exn + 'a \<Rightarrow> bool" where
  "transient_failure x = (case x of Inl e \<Rightarrow> retry_if_exception_type e | Inr v \<Rightarrow> False)"

text \<open>
  What a run of \<open>retrying\<close> from attempt \<open>k\<close> with limit \<open>n\<close> amounts to: it stops at
  the first attempt that is not a transient failure, or at the limit, and its outcome is
  the outcome of the attempt it stopped at.
\<close>

definition retry_ok :: "nat \<Rightarrow> (nat \<Rightarrow> exn + 'a) \<Rightarrow> nat \<Rightarrow> 'a retry_run \<Rightarrow> bool" where
  "retry_ok n call k r =
     (k \<le> attempts r \<and> attempts r \<le> max n k \<and> outcome r = call (attempts r) \<and>
      (\<forall>i. k \<le> i \<and> i < attempts r \<longrightarrow> transient_failure (call i)) \<and>
      (attempts r < n \<longrightarrow> \<not> transient_failure (call (attempts r))))"

text \<open>
  An environment in which everything is installed and no external call raises. Its
  serializer and retriever are simple stand-ins: the retriever returns the first \<open>k\<close>
  documents inserted.
\<close>

definition example_dumps :: "(string \<rightharpoonup> pyval) \<Rightarrow> string" where
  "example_dumps event =
     (case event ''action'' of
        Some (PStr a) \<Rightarrow> ''action='' @ a
      | _ \<Rightarrow> (case event ''observation'' of
                Some (PStr b) \<Rightarrow> ''observation='' @ b
              | _ \<Rightarrow> ''{}''))"

definition example_retrieve ::
  "document list \<Rightarrow> string \<Rightarrow> int \<Rightarrow> exn + node_with_score list" where
  "example_retrieve ds query k =
     Inr (take (nat k) (map (\<lambda>d. \<lparr>get_text = doc_text d, node_id = doc_id d\<rparr>) ds))"

definition example_env :: py_env where
  "example_env =
     \<lparr>importable = (\<lambda>m. True), has_wrapped = True, raises = (\<lambda>c. None),
      json_dumps = example_dumps, retrieve = example_retrieve\<rparr>"

definition example_config :: LLMConfig where
  "example_config =
     \<lparr>embedding_model = Some ''openai'', embedding_base_url = None,
      api_key = Some ''sk-test'', embedding_deployment_name = None,
      base_url = None, api_version = None\<rparr>"

text \<open>The object a successful \<open>__init__\<close> returns for a given number of permits.\<close>

definition fresh :: "int \<Rightarrow> ltm" where
  "fresh p = \<lparr>sema = p, thought_idx = 0, add_threads = [], index = [], debug_log = []\<rparr>"

text \<open>
  An embedding call that fails once with each of the three retried classes and then
  answers.
\<close>

definition flaky_call :: "nat \<Rightarrow> exn + nat" where
  "flaky_call k =
     (if k = 1 then Inl RateLimitError
      else if k = 2 then Inl APIConnectionError
      else if k = 3 then Inl InternalServerError
      else Inr 42)"

text \<open>An embedding call that is rate-limited every time, and one that fails for good.\<close>

definition limited_call :: "nat \<Rightarrow> exn + nat" where
  "limited_call k = Inl RateLimitError"

definition broken_call :: "nat \<Rightarrow> exn + nat" where
  "broken_call k = Inl (OtherError ''invalid request'')"

text \<open>A random source that always draws one half.\<close>

definition half_jitter :: "nat \<Rightarrow> real" where
  "half_jitter k = 1 / 2"

text \<open>An environment whose library function \<open>get_embeddings\<close> has no \<open>__wrapped__\<close>.\<close>

definition unwrapped_env :: py_env where
  "unwrapped_env =
     \<lparr>importable = (\<lambda>m. True), has_wrapped = False, raises = (\<lambda>c. None),
      json_dumps = example_dumps, retrieve = example_retrieve\<rparr>"

definition action_event :: "string \<rightharpoonup> pyval" where
  "action_event = [''action'' \<mapsto> PStr ''run_command'']"

definition observation_event :: "string \<rightharpoonup> pyval" where
  "observation_event = [''observation'' \<mapsto> PStr ''output: ok'']"

text \<open>An environment in which \<open>chromadb\<close> is not installed.\<close>

definition bare_env :: py_env where
  "bare_env =
     \<lparr>importable = (\<lambda>m. m \<noteq> ''chromadb''), has_wrapped = True, raises = (\<lambda>c. None),
      json_dumps = example_dumps, retrieve = example_retrieve\<rparr>"

text \<open>The document built by a call of \<open>add_event\<close>: the one given to the thread it starts.\<close>

definition new_doc :: "py_env \<Rightarrow> ltm \<Rightarrow> (string \<rightharpoonup> pyval) \<Rightarrow> document" where
  "new_doc env s event = doc (last (add_threads (add_event env s event)))"

text \<open>The tag, source id and sequence index of the documents of the threads, in call order.\<close>

definition metadata :: "ltm \<Rightarrow> (string \<times> pyval \<times> int) list" where
  "metadata s = map (\<lambda>t. (info_type (doc t), info_id (doc t), info_idx (doc t))) (add_threads s)"

text \<open>
  The numbering invariant: the counter equals the number of threads started, and the
  documents of the threads carry the indices \<open>0, 1, ...\<close> in the order of the list.
\<close>

definition numbered :: "ltm \<Rightarrow> bool" where
  "numbered s =
     (thought_idx s = int (length (add_threads s)) \<and>
      map (info_idx \<circ> doc) (add_threads s) = map int [0..<length (add_threads s)])"

text \<open>The semaphore invariant for \<open>p\<close> permits.\<close>

definition permits_ok :: "int \<Rightarrow> ltm \<Rightarrow> bool" where
  "permits_ok p s = (int (holding s) + sema s = p \<and> 0 \<le> sema s)"

text \<open>
  A run on one permit: two calls of \<open>add_event\<close>, after which the first thread enters
  the \<open>with\<close> block; the trace of a successful \<open>__init__\<close> in \<open>example_env\<close>; and
  the state that run ends in.
\<close>

definition example_schedule :: "action list" where
  "example_schedule = [CallAddEvent action_event, CallAddEvent observation_event, Enter 0]"

definition example_trace :: "ext_call list" where
  "example_trace =
     [ChromaClient, GetOrCreateCollection ''memories'', NewChromaVectorStore,
      ImportModule ''llama_index.embeddings.openai'',
      NewEmbedding (OpenAIEmbedding ''text-embedding-ada-002'' (Some ''sk-test'')),
      FromVectorStore (Some (OpenAIEmbedding ''text-embedding-ada-002'' (Some ''sk-test'')))]"

definition example_state :: ltm where
  "example_state =
     \<lparr>sema = 0, thought_idx = 2,
      add_threads =
        [\<lparr>doc = \<lparr>doc_text = ''action=run_command'', doc_id = ''0'', info_type = ''action'',
                  info_id = PStr ''run_command'', info_idx = 0\<rparr>,
          stage = Insert\<rparr>,
         \<lparr>doc = \<lparr>doc_text = ''observation=output: ok'', doc_id = ''1'',
                  info_type = ''observation'', info_id = PStr ''output: ok'', info_idx = 1\<rparr>,
          stage = Acquire\<rparr>],
      index = [], debug_log = [(''action'', 1), (''observation'', 2)]\<rparr>"


section \<open>Properties of the event accessors\<close>

text \<open>
  Claim C7. On an instance whose backing field is not set, \<open>message\<close> is the empty
  text, \<open>id\<close> is \<open>-1\<close>, and \<open>timestamp\<close>, \<open>source\<close>, \<open>cause\<close> and \<open>timeout\<close> are
  \<open>None\<close>; on an instance whose backing field is set, each accessor returns the stored
  value.
\<close>

theorem accessor_defaults:
  "(self ''_message'' = None \<longrightarrow> message self = PStr '''') \<and>
   (self ''_id'' = None \<longrightarrow> id_prop self = PInt (- 1)) \<and>
   (self ''_timestamp'' = None \<longrightarrow> timestamp self = PNone) \<and>
   (self ''_source'' = None \<longrightarrow> source self = PNone) \<and>
   (self ''_cause'' = None \<longrightarrow> cause self = PNone) \<and>
   (self ''_timeout'' = None \<longrightarrow> timeout self = PNone) \<and>
   (\<forall>v. self ''_message'' = Some v \<longrightarrow> message self = v) \<and>
   (\<forall>v. self ''_id'' = Some v \<longrightarrow> id_prop self = v) \<and>
   (\<forall>v. self ''_timestamp'' = Some v \<longrightarrow> timestamp self = v) \<and>
   (\<forall>v. self ''_source'' = Some v \<longrightarrow> source self = v) \<and>
   (\<forall>v. self ''_cause'' = Some v \<longrightarrow> cause self = v) \<and>
   (\<forall>v. self ''_timeout'' = Some v \<longrightarrow> timeout self = v)"
  by (simp add: message_def id_prop_def timestamp_def source_def cause_def timeout_def
      hasattr_def getattr_def)

theorem accessor_defaults_witness:
  "message Map.empty = PStr '''' \<and> id_prop Map.empty = PInt (- 1) \<and>
   timestamp Map.empty = PNone \<and> source Map.empty = PNone \<and>
   cause Map.empty = PNone \<and> timeout Map.empty = PNone \<and>
   message [''_message'' \<mapsto> PStr ''hi''] = PStr ''hi'' \<and>
   id_prop [''_id'' \<mapsto> PInt 7] = PInt 7 \<and>
   timestamp [''_timestamp'' \<mapsto> PDatetime ''2024-01-01T00:00:00''] =
     PDatetime ''2024-01-01T00:00:00'' \<and>
   source [''_source'' \<mapsto> PSource USER] = PSource USER \<and>
   cause [''_cause'' \<mapsto> PInt 3] = PInt 3 \<and>
   timeout [''_timeout'' \<mapsto> PInt 30] = PInt 30"
  using accessor_defaults [of Map.empty]
    accessor_defaults [of "[''_message'' \<mapsto> PStr ''hi'']"]
    accessor_defaults [of "[''_id'' \<mapsto> PInt 7]"]
    accessor_defaults [of "[''_timestamp'' \<mapsto> PDatetime ''2024-01-01T00:00:00'']"]
    accessor_defaults [of "[''_source'' \<mapsto> PSource USER]"]
    accessor_defaults [of "[''_cause'' \<mapsto> PInt 3]"]
    accessor_defaults [of "[''_timeout'' \<mapsto> PInt 30]"]
  by simp

text \<open>
  Claim C8. Writing \<open>timeout\<close> stores the value. When the instance has a \<open>blocking\<close>
  attribute, \<open>blocking\<close> becomes true as well; when it has none, the write is the only
  change and the instance still has no \<open>blocking\<close> attribute. In both cases every
  attribute other than \<open>_timeout\<close> and \<open>blocking\<close> is as before. The setter is a
  total function: it has no failing branch.
\<close>

theorem timeout_setter_blocking:
  "timeout (timeout_setter self v) = v \<and>
   (hasattr self ''blocking'' \<longrightarrow>
      timeout_setter self v = self(''_timeout'' \<mapsto> v, ''blocking'' \<mapsto> PBool True)) \<and>
   (\<not> hasattr self ''blocking'' \<longrightarrow>
      timeout_setter self v = self(''_timeout'' \<mapsto> v) \<and>
      \<not> hasattr (timeout_setter self v) ''blocking'') \<and>
   (hasattr (timeout_setter self v) ''blocking'' \<longleftrightarrow> hasattr self ''blocking'') \<and>
   (\<forall>a. a \<noteq> ''_timeout'' \<and> a \<noteq> ''blocking'' \<longrightarrow> timeout_setter self v a = self a)"
  by (simp add: timeout_setter_def timeout_def hasattr_def getattr_def Let_def)

theorem timeout_setter_blocking_witness:
  "timeout_setter [''blocking'' \<mapsto> PBool False] (PInt 30) ''blocking'' = Some (PBool True) \<and>
   timeout (timeout_setter [''blocking'' \<mapsto> PBool False] (PInt 30)) = PInt 30 \<and>
   timeout_setter [''_id'' \<mapsto> PInt 4] (PInt 30) = [''_id'' \<mapsto> PInt 4, ''_timeout'' \<mapsto> PInt 30] \<and>
   timeout_setter [''_id'' \<mapsto> PInt 4] (PInt 30) ''blocking'' = None \<and>
   timeout_setter [''_id'' \<mapsto> PInt 4] (PInt 30) ''_id'' = Some (PInt 4)"
  using timeout_setter_blocking [of "[''blocking'' \<mapsto> PBool False]" "PInt 30"]
    timeout_setter_blocking [of "[''_id'' \<mapsto> PInt 4]" "PInt 30"]
  by (simp add: hasattr_def timeout_def getattr_def)

text \<open>
  Claim C10. On an instance that has a \<open>blocking\<close> attribute, assigning \<open>None\<close> to
  \<open>timeout\<close> sets \<open>blocking\<close> to true, as assigning any other value does: the value of
  \<open>blocking\<close> afterwards does not depend on the value stored. After the assignment of
  \<open>None\<close> the accessor \<open>timeout\<close> returns \<open>None\<close>.
\<close>

theorem timeout_none_still_blocks:
  "hasattr self ''blocking'' \<Longrightarrow>
     timeout_setter self PNone ''blocking'' = Some (PBool True) \<and>
     timeout_setter self v ''blocking'' = timeout_setter self PNone ''blocking'' \<and>
     timeout (timeout_setter self PNone) = PNone"
  by (simp add: timeout_setter_def timeout_def hasattr_def getattr_def Let_def)

theorem timeout_none_still_blocks_witness:
  "hasattr [''blocking'' \<mapsto> PBool False] ''blocking'' \<and>
   timeout_setter [''blocking'' \<mapsto> PBool False] PNone ''blocking'' = Some (PBool True) \<and>
   timeout_setter [''blocking'' \<mapsto> PBool False] (PInt 5) ''blocking'' =
     timeout_setter [''blocking'' \<mapsto> PBool False] PNone ''blocking'' \<and>
   timeout (timeout_setter [''blocking'' \<mapsto> PBool False] PNone) = PNone"
proof -
  have h: "hasattr [''blocking'' \<mapsto> PBool False] ''blocking''"
    by (simp add: hasattr_def)
  show ?thesis
    using h timeout_none_still_blocks [OF h, of "PInt 5"] by simp
qed

section \<open>The retry policy of the embedding call\<close>

lemma retrying_returns:
  "call k = Inr v \<Longrightarrow>
   retrying n jitter call k logged ws =
     \<lparr>outcome = Inr v, attempts = k, error_log = logged, pauses = ws\<rparr>"
  by (subst retrying.simps) simp

lemma retrying_other_error:
  "call k = Inl e \<Longrightarrow> \<not> retry_if_exception_type e \<Longrightarrow>
   retrying n jitter call k logged ws =
     \<lparr>outcome = Inl e, attempts = k, error_log = logged, pauses = ws\<rparr>"
  by (subst retrying.simps) simp

lemma retrying_exhausted:
  "call k = Inl e \<Longrightarrow> retry_if_exception_type e \<Longrightarrow> n \<le> k \<Longrightarrow>
   retrying n jitter call k logged ws =
     \<lparr>outcome = Inl e, attempts = k, error_log = logged @ [(e, k)], pauses = ws\<rparr>"
  by (subst retrying.simps) simp

lemma retrying_again:
  "call k = Inl e \<Longrightarrow> retry_if_exception_type e \<Longrightarrow> \<not> n \<le> k \<Longrightarrow>
   retrying n jitter call k logged ws =
     retrying n jitter call (Suc k) (logged @ [(e, k)])
       (ws @ [wait_random_exponential (jitter k) k])"
  by (subst retrying.simps) simp

lemma transient_failure_iff:
  "transient_failure x =
     (x \<in> {Inl RateLimitError, Inl APIConnectionError, Inl InternalServerError})"
  by (cases x) (auto simp: transient_failure_def retry_if_exception_type_def)

lemma retry_ok_step:
  assumes "transient_failure (call k)" "\<not> n \<le> k" "retry_ok n call (Suc k) r"
  shows "retry_ok n call k r"
proof -
  have "\<And>i. k \<le> i \<Longrightarrow> i < attempts r \<Longrightarrow> transient_failure (call i)"
  proof -
    fix i assume "k \<le> i" "i < attempts r"
    show "transient_failure (call i)"
    proof (cases "i = k")
      case True then show ?thesis using assms(1) by simp
    next
      case False
      then have "Suc k \<le> i" using \<open>k \<le> i\<close> by arith
      then show ?thesis using assms(3) \<open>i < attempts r\<close> by (simp add: retry_ok_def)
    qed
  qed
  moreover have "k \<le> attempts r" "attempts r \<le> max n k"
    using assms(2,3) by (simp_all add: retry_ok_def max_def split: if_splits)
  ultimately show ?thesis using assms(3) by (simp add: retry_ok_def)
qed

lemma retrying_attempts: "retry_ok n call k (retrying n jitter call k logged ws)"
proof (induction n jitter call k logged ws rule: retrying.induct)
  case (1 n jitter call k logged ws)
  show ?case
  proof (cases "call k")
    case (Inr v)
    then show ?thesis by (auto simp: retrying_returns retry_ok_def transient_failure_def)
  next
    case (Inl e)
    show ?thesis
    proof (cases "retry_if_exception_type e")
      case False
      with Inl show ?thesis
        by (auto simp: retrying_other_error retry_ok_def transient_failure_def)
    next
      case True
      show ?thesis
      proof (cases "n \<le> k")
        case True
        with Inl \<open>retry_if_exception_type e\<close> show ?thesis
          by (auto simp: retrying_exhausted retry_ok_def)
      next
        case False
        have tk: "transient_failure (call k)"
          using Inl True by (simp add: transient_failure_def)
        have ih: "retry_ok n call (Suc k)
            (retrying n jitter call (Suc k) (logged @ [(e, k)])
               (ws @ [wait_random_exponential (jitter k) k]))"
          using "1.IH" Inl True False by simp
        show ?thesis
          using retry_ok_step [OF tk False ih] retrying_again [of call k e n jitter logged ws]
            Inl True False
          by simp
      qed
    qed
  qed
qed

lemma retrying_pauses:
  "pauses (retrying n jitter call k logged ws) =
     ws @ map (\<lambda>i. wait_random_exponential (jitter i) i)
            [k..<attempts (retrying n jitter call k logged ws)]"
proof (induction n jitter call k logged ws rule: retrying.induct)
  case (1 n jitter call k logged ws)
  show ?case
  proof (cases "call k")
    case (Inr v)
    then show ?thesis by (simp add: retrying_returns)
  next
    case (Inl e)
    show ?thesis
    proof (cases "retry_if_exception_type e")
      case False
      with Inl show ?thesis by (simp add: retrying_other_error)
    next
      case True
      show ?thesis
      proof (cases "n \<le> k")
        case True
        with Inl \<open>retry_if_exception_type e\<close> show ?thesis
          by (simp add: retrying_exhausted)
      next
        case False
        define r where "r = retrying n jitter call (Suc k) (logged @ [(e, k)])
            (ws @ [wait_random_exponential (jitter k) k])"
        have eq: "retrying n jitter call k logged ws = r"
          unfolding r_def using retrying_again [of call k e n jitter logged ws] Inl True False
          by simp
        have ih: "pauses r = (ws @ [wait_random_exponential (jitter k) k]) @
            map (\<lambda>i. wait_random_exponential (jitter i) i) [Suc k..<attempts r]"
          unfolding r_def using "1.IH" Inl True False by simp
        have "retry_ok n call (Suc k) r"
          unfolding r_def by (rule retrying_attempts)
        then have "k < attempts r" by (simp add: retry_ok_def)
        then have "[k..<attempts r] = k # [Suc k..<attempts r]"
          by (rule upt_conv_Cons)
        then show ?thesis unfolding eq using ih by simp
      qed
    qed
  qed
qed

lemma backoff_cap_bounds:
  "real_of_int retry_min_wait \<le> backoff_cap k \<and> backoff_cap k \<le> real_of_int retry_max_wait"
  by (simp add: backoff_cap_def retry_min_wait_def retry_max_wait_def)

lemma backoff_cap_mono: "backoff_cap k \<le> backoff_cap (Suc k)"
proof -
  have "(2::real) ^ (k - 1) \<le> 2 ^ (Suc k - 1)"
    by (rule power_increasing) simp_all
  then have "min ((2::real) ^ (k - 1)) (real_of_int retry_max_wait) \<le>
      min (2 ^ (Suc k - 1)) (real_of_int retry_max_wait)"
    by (rule min.mono) simp
  then have "max (real_of_int retry_min_wait) (min (2 ^ (k - 1)) (real_of_int retry_max_wait)) \<le>
      max (real_of_int retry_min_wait) (min (2 ^ (Suc k - 1)) (real_of_int retry_max_wait))"
    by (rule max.mono [OF order_refl])
  then show ?thesis
    by (simp only: backoff_cap_def)
qed

lemma backoff_cap_exponential:
  "real_of_int retry_min_wait \<le> 2 ^ (k - 1) \<Longrightarrow> 2 ^ (k - 1) \<le> real_of_int retry_max_wait \<Longrightarrow>
   backoff_cap k = 2 ^ (k - 1)"
  by (simp add: backoff_cap_def)

lemma wait_random_exponential_bounds:
  assumes "0 \<le> u" "u \<le> 1"
  shows "real_of_int retry_min_wait \<le> wait_random_exponential u k \<and>
         wait_random_exponential u k \<le> backoff_cap k"
proof -
  define d where "d = backoff_cap k - real_of_int retry_min_wait"
  have d: "0 \<le> d" using backoff_cap_bounds [of k] by (simp add: d_def)
  have "0 \<le> u * d" using assms(1) d by (rule mult_nonneg_nonneg)
  moreover have "u * d \<le> d" by (rule mult_left_le_one_le [OF d assms(1) assms(2)])
  ultimately show ?thesis
    by (simp add: wait_random_exponential_def d_def)
qed

text \<open>
  Claim C1, as stated, fails: the limit of 10 attempts holds only when the library
  function carries \<open>__wrapped__\<close>. When it does not, the module sets \<open>num_retries\<close> to
  1, and a rate-limit error is not retried at all: the call that is rate-limited every
  time raises after one attempt, and the call that would have answered on its fourth
  attempt raises the rate-limit error of its first.
\<close>

theorem no_retry_without_wrapped:
  "\<not> has_wrapped unwrapped_env \<and> num_retries unwrapped_env = 1 \<and>
   limited_call 1 = Inl RateLimitError \<and>
   attempts (wrapper_get_embeddings unwrapped_env half_jitter limited_call) = 1 \<and>
   outcome (wrapper_get_embeddings unwrapped_env half_jitter limited_call) = Inl RateLimitError \<and>
   flaky_call 4 = Inr 42 \<and>
   attempts (wrapper_get_embeddings unwrapped_env half_jitter flaky_call) = 1 \<and>
   outcome (wrapper_get_embeddings unwrapped_env half_jitter flaky_call) = Inl RateLimitError"
  by (simp add: wrapper_get_embeddings_def num_retries_def unwrapped_env_def limited_call_def
      flaky_call_def retrying.simps retry_if_exception_type_def)

text \<open>
  Claim C1, amended. The embedding call is wrapped by a retry policy whose limit is
  \<open>num_retries\<close>: 10 attempts when the library function carries \<open>__wrapped__\<close> (the
  default), 1 attempt when it does not. The call is attempted at least once and at most
  \<open>num_retries\<close> times; every attempt before the last raised a rate-limit, connection or
  internal-server error; the run stops before the limit only at an attempt that did not
  raise one of these three; and what the wrapper returns or raises is the outcome of the
  last attempt. So when every attempt up to the limit fails with one of the three, the
  error of the final attempt is re-raised, and an error of any other class on the first
  attempt propagates after that one attempt. Between two attempts there is one pause,
  the randomized exponential backoff: for a draw between 0 and 1 the pause after attempt
  \<open>i\<close> lies between the minimum wait of 3 and a bound that never decreases from one
  attempt to the next, equals \<open>2 ^ (i - 1)\<close> while that lies between the two waits,
  and never exceeds the maximum wait of 300.
\<close>

theorem wrapper_get_embeddings_retry:
  "num_retries env = (if has_wrapped env then 10 else 1) \<and>
   1 \<le> attempts (wrapper_get_embeddings env jitter call) \<and>
   attempts (wrapper_get_embeddings env jitter call) \<le> num_retries env \<and>
   outcome (wrapper_get_embeddings env jitter call) =
     call (attempts (wrapper_get_embeddings env jitter call)) \<and>
   (\<forall>i. 1 \<le> i \<and> i < attempts (wrapper_get_embeddings env jitter call) \<longrightarrow>
      call i \<in> {Inl RateLimitError, Inl APIConnectionError, Inl InternalServerError}) \<and>
   (attempts (wrapper_get_embeddings env jitter call) < num_retries env \<longrightarrow>
      call (attempts (wrapper_get_embeddings env jitter call)) \<notin>
        {Inl RateLimitError, Inl APIConnectionError, Inl InternalServerError}) \<and>
   ((\<forall>i. 1 \<le> i \<and> i \<le> num_retries env \<longrightarrow>
       call i \<in> {Inl RateLimitError, Inl APIConnectionError, Inl InternalServerError}) \<longrightarrow>
      attempts (wrapper_get_embeddings env jitter call) = num_retries env \<and>
      outcome (wrapper_get_embeddings env jitter call) = call (num_retries env)) \<and>
   (call 1 \<notin> {Inl RateLimitError, Inl APIConnectionError, Inl InternalServerError} \<longrightarrow>
      attempts (wrapper_get_embeddings env jitter call) = 1 \<and>
      outcome (wrapper_get_embeddings env jitter call) = call 1) \<and>
   pauses (wrapper_get_embeddings env jitter call) =
     map (\<lambda>i. wait_random_exponential (jitter i) i)
       [1..<attempts (wrapper_get_embeddings env jitter call)] \<and>
   (\<forall>i. 0 \<le> jitter i \<and> jitter i \<le> 1 \<longrightarrow>
      real_of_int retry_min_wait \<le> wait_random_exponential (jitter i) i \<and>
      wait_random_exponential (jitter i) i \<le> backoff_cap i) \<and>
   (\<forall>i. backoff_cap i \<le> backoff_cap (Suc i) \<and>
      backoff_cap i \<le> real_of_int retry_max_wait \<and>
      (real_of_int retry_min_wait \<le> 2 ^ (i - 1) \<and> 2 ^ (i - 1) \<le> real_of_int retry_max_wait \<longrightarrow>
         backoff_cap i = 2 ^ (i - 1))) \<and>
   retry_min_wait = 3 \<and> retry_max_wait = 300"
proof -
  define m where "m = num_retries env"
  define r where "r = wrapper_get_embeddings env jitter call"
  have n: "m = (if has_wrapped env then 10 else 1)" by (simp add: m_def num_retries_def)
  have m1: "1 \<le> m" using n by simp
  have r: "r = retrying m jitter call 1 [] []"
    by (simp add: r_def m_def wrapper_get_embeddings_def)
  have ok: "retry_ok m call 1 r"
    unfolding r by (rule retrying_attempts)
  have a1: "1 \<le> attempts r" and a2: "attempts r \<le> m"
    and a3: "outcome r = call (attempts r)"
    and a4: "\<forall>i. 1 \<le> i \<and> i < attempts r \<longrightarrow> transient_failure (call i)"
    and a5: "attempts r < m \<longrightarrow> \<not> transient_failure (call (attempts r))"
    using ok m1 by (simp_all add: retry_ok_def max_def)
  have b: "(\<forall>i. 1 \<le> i \<and> i \<le> m \<longrightarrow> transient_failure (call i)) \<longrightarrow>
        attempts r = m \<and> outcome r = call m"
  proof
    assume all: "\<forall>i. 1 \<le> i \<and> i \<le> m \<longrightarrow> transient_failure (call i)"
    have "\<not> attempts r < m"
    proof
      assume l: "attempts r < m"
      then have "transient_failure (call (attempts r))" using all a1 by simp
      then show False using a5 l by simp
    qed
    then have "attempts r = m" using a2 by simp
    then show "attempts r = m \<and> outcome r = call m" using a3 by simp
  qed
  have c: "\<not> transient_failure (call 1) \<longrightarrow> attempts r = 1 \<and> outcome r = call 1"
  proof
    assume nt: "\<not> transient_failure (call 1)"
    have "\<not> 1 < attempts r"
    proof
      assume "1 < attempts r"
      then have "transient_failure (call 1)" using a4 by simp
      then show False using nt by simp
    qed
    then have "attempts r = 1" using a1 by simp
    then show "attempts r = 1 \<and> outcome r = call 1" using a3 by simp
  qed
  have p: "pauses r = map (\<lambda>i. wait_random_exponential (jitter i) i) [1..<attempts r]"
    unfolding r using retrying_pauses [of m jitter call 1 "[]" "[]"] by simp
  have w: "\<forall>i. 0 \<le> jitter i \<and> jitter i \<le> 1 \<longrightarrow>
      real_of_int retry_min_wait \<le> wait_random_exponential (jitter i) i \<and>
      wait_random_exponential (jitter i) i \<le> backoff_cap i"
    using wait_random_exponential_bounds by blast
  have e: "\<forall>i. backoff_cap i \<le> backoff_cap (Suc i) \<and>
      backoff_cap i \<le> real_of_int retry_max_wait \<and>
      (real_of_int retry_min_wait \<le> 2 ^ (i - 1) \<and> 2 ^ (i - 1) \<le> real_of_int retry_max_wait \<longrightarrow>
         backoff_cap i = 2 ^ (i - 1))"
    using backoff_cap_mono backoff_cap_bounds backoff_cap_exponential by blast
  have k: "retry_min_wait = 3" "retry_max_wait = 300"
    by (simp_all add: retry_min_wait_def retry_max_wait_def)
  show ?thesis
    unfolding r_def [symmetric] m_def [symmetric] transient_failure_iff [symmetric]
    using n a1 a2 a3 a4 a5 b c p w e k by blast
qed

lemma flaky_run:
  "wrapper_get_embeddings example_env half_jitter flaky_call =
     \<lparr>outcome = Inr 42, attempts = 4,
      error_log = [(RateLimitError, 1), (APIConnectionError, 2), (InternalServerError, 3)],
      pauses = [3, 3, 7 / 2]\<rparr>"
  by (simp add: wrapper_get_embeddings_def num_retries_def example_env_def flaky_call_def
      retrying.simps retry_if_exception_type_def wait_random_exponential_def backoff_cap_def
      retry_min_wait_def retry_max_wait_def half_jitter_def)

lemma limited_run:
  "outcome (wrapper_get_embeddings example_env half_jitter limited_call) = Inl RateLimitError \<and>
   attempts (wrapper_get_embeddings example_env half_jitter limited_call) = 10"
  by (simp add: wrapper_get_embeddings_def num_retries_def example_env_def limited_call_def
      retrying.simps retry_if_exception_type_def)

lemma broken_run:
  "outcome (wrapper_get_embeddings example_env half_jitter broken_call) =
     Inl (OtherError ''invalid request'') \<and>
   attempts (wrapper_get_embeddings example_env half_jitter broken_call) = 1 \<and>
   pauses (wrapper_get_embeddings example_env half_jitter broken_call) = []"
  by (simp add: wrapper_get_embeddings_def num_retries_def example_env_def broken_call_def
      retrying.simps retry_if_exception_type_def)

theorem wrapper_get_embeddings_retry_witness:
  "num_retries example_env = 10 \<and> num_retries unwrapped_env = 1 \<and>
   limited_call 1 = Inl RateLimitError \<and> limited_call 10 = Inl RateLimitError \<and>
   attempts (wrapper_get_embeddings example_env half_jitter limited_call) = 10 \<and>
   outcome (wrapper_get_embeddings example_env half_jitter limited_call) = Inl RateLimitError \<and>
   broken_call 1 = Inl (OtherError ''invalid request'') \<and>
   attempts (wrapper_get_embeddings example_env half_jitter broken_call) = 1 \<and>
   outcome (wrapper_get_embeddings example_env half_jitter broken_call) =
     Inl (OtherError ''invalid request'') \<and>
   flaky_call 1 = Inl RateLimitError \<and> flaky_call 2 = Inl APIConnectionError \<and>
   flaky_call 3 = Inl InternalServerError \<and> flaky_call 4 = Inr 42 \<and>
   attempts (wrapper_get_embeddings example_env half_jitter flaky_call) = 4 \<and>
   outcome (wrapper_get_embeddings example_env half_jitter flaky_call) = Inr 42 \<and>
   pauses (wrapper_get_embeddings example_env half_jitter flaky_call) = [3, 3, 7 / 2] \<and>
   0 \<le> half_jitter 3 \<and> half_jitter 3 \<le> 1 \<and>
   real_of_int retry_min_wait \<le> wait_random_exponential (half_jitter 3) 3 \<and>
   wait_random_exponential (half_jitter 3) 3 \<le> backoff_cap 3 \<and>
   backoff_cap 3 = 4"
proof -
  have n: "num_retries example_env = 10" "num_retries unwrapped_env = 1"
    using wrapper_get_embeddings_retry [of example_env half_jitter limited_call]
      wrapper_get_embeddings_retry [of unwrapped_env half_jitter limited_call]
    by (simp_all add: example_env_def unwrapped_env_def)
  have l: "\<forall>i. 1 \<le> i \<and> i \<le> num_retries example_env \<longrightarrow> limited_call i = Inl RateLimitError"
    by (simp add: limited_call_def)
  then have l': "\<forall>i. 1 \<le> i \<and> i \<le> num_retries example_env \<longrightarrow>
      limited_call i \<in> {Inl RateLimitError, Inl APIConnectionError, Inl InternalServerError}"
    by simp
  have la: "attempts (wrapper_get_embeddings example_env half_jitter limited_call) =
        num_retries example_env \<and>
      outcome (wrapper_get_embeddings example_env half_jitter limited_call) =
        limited_call (num_retries example_env)"
    using wrapper_get_embeddings_retry [of example_env half_jitter limited_call] l' by blast
  have la1: "attempts (wrapper_get_embeddings example_env half_jitter limited_call) = 10"
    and la2: "outcome (wrapper_get_embeddings example_env half_jitter limited_call) =
        Inl RateLimitError"
    using la n(1) by (simp_all add: limited_call_def)
  have b: "broken_call 1 = Inl (OtherError ''invalid request'')"
    by (simp add: broken_call_def)
  then have b': "broken_call 1 \<notin>
      {Inl RateLimitError, Inl APIConnectionError, Inl InternalServerError}"
    by simp
  have ba: "attempts (wrapper_get_embeddings example_env half_jitter broken_call) = 1 \<and>
      outcome (wrapper_get_embeddings example_env half_jitter broken_call) = broken_call 1"
    using wrapper_get_embeddings_retry [of example_env half_jitter broken_call] b' by blast
  have ba1: "attempts (wrapper_get_embeddings example_env half_jitter broken_call) = 1"
    and ba2: "outcome (wrapper_get_embeddings example_env half_jitter broken_call) =
        Inl (OtherError ''invalid request'')"
    using ba b by simp_all
  have f: "flaky_call 1 = Inl RateLimitError" "flaky_call 2 = Inl APIConnectionError"
    "flaky_call 3 = Inl InternalServerError" "flaky_call 4 = Inr 42"
    by (simp_all add: flaky_call_def)
  have fr: "attempts (wrapper_get_embeddings example_env half_jitter flaky_call) = 4"
    "outcome (wrapper_get_embeddings example_env half_jitter flaky_call) = Inr 42"
    "pauses (wrapper_get_embeddings example_env half_jitter flaky_call) = [3, 3, 7 / 2]"
    by (simp_all add: flaky_run)
  have j: "0 \<le> half_jitter 3 \<and> half_jitter 3 \<le> 1"
    by (simp add: half_jitter_def)
  have w: "real_of_int retry_min_wait \<le> wait_random_exponential (half_jitter 3) 3 \<and>
      wait_random_exponential (half_jitter 3) 3 \<le> backoff_cap 3"
    using wrapper_get_embeddings_retry [of example_env half_jitter flaky_call] j by blast
  have c: "backoff_cap 3 = 4"
    by (simp add: backoff_cap_def retry_min_wait_def retry_max_wait_def)
  have l1: "limited_call 1 = Inl RateLimitError" "limited_call 10 = Inl RateLimitError"
    by (simp_all add: limited_call_def)
  show ?thesis
    using n l1 la1 la2 b ba1 ba2 f fr j w c by blast
qed

section \<open>The constructor\<close>

lemma ext_trace:
  "(\<And>tr'. tr' \<noteq> [] \<Longrightarrow> fst (cont tr') \<noteq> []) \<Longrightarrow> fst (ext env c tr cont) \<noteq> []"
  by (simp add: ext_def split: option.splits)

lemma import_module_trace:
  "(\<And>tr'. tr' \<noteq> [] \<Longrightarrow> fst (cont tr') \<noteq> []) \<Longrightarrow> fst (import_module env m tr cont) \<noteq> []"
  by (simp add: import_module_def)

lemma get_embedding_model_trace:
  "tr \<noteq> [] \<Longrightarrow> fst (get_embedding_model env strategy llm_config tr) \<noteq> []"
  unfolding get_embedding_model_def Let_def
  by (auto intro!: import_module_trace ext_trace)

lemma init_trace:
  "LLAMA_INDEX_AVAILABLE env \<Longrightarrow> fst (init env llm_config p) \<noteq> []"
  unfolding init_def
  apply simp
  apply (intro ext_trace)
  subgoal for tr1 tr2 tr3
    using get_embedding_model_trace [of tr3 env "embedding_model llm_config" llm_config]
    by (auto split: prod.splits sum.splits if_splits intro!: ext_trace)
  done

lemma ext_Inr:
  "ext env c tr cont = (tr', Inr s) \<Longrightarrow> \<exists>tr1. cont tr1 = (tr', Inr s)"
  by (auto simp: ext_def split: option.splits)

lemma init_fresh:
  assumes "init env llm_config p = (tr, Inr s)"
  shows "s = fresh p \<and> 0 \<le> p"
proof -
  from assms have av: "LLAMA_INDEX_AVAILABLE env"
    by (auto simp: init_def split: if_splits)
  from assms av have "\<exists>t4.
     (if p < 0 then (t4, Inl (ValueError ''semaphore initial value must be >= 0''))
      else (t4, Inr \<lparr>sema = p, thought_idx = 0, add_threads = [], index = [], debug_log = []\<rparr>))
     = (tr, Inr s)"
    unfolding init_def
    by (auto dest!: ext_Inr split: prod.splits sum.splits if_splits)
  then show ?thesis by (auto simp: fresh_def split: if_splits)
qed

lemma init_example: "init example_env example_config 1 = (example_trace, Inr (fresh 1))"
  by (simp add: init_def LLAMA_INDEX_AVAILABLE_def example_env_def example_config_def ext_def
      get_embedding_model_def import_module_def supported_ollama_embed_models_def
      example_trace_def fresh_def Let_def)

text \<open>
  Claim C9. \<open>__init__\<close> raises the missing-dependency \<open>ImportError\<close> with no external
  call made before it exactly when the flag \<open>LLAMA_INDEX_AVAILABLE\<close> is false, that is,
  when one of the modules imported at the top of \<open>memory.py\<close> is not installed. When
  the flag is true, whatever \<open>__init__\<close> returns or raises comes after the call that
  creates the chromadb client.
\<close>

theorem init_missing_dependency:
  "(init env llm_config p = ([], Inl missing_dependency)) = (\<not> LLAMA_INDEX_AVAILABLE env) \<and>
   ((\<exists>m. init env llm_config p = ([], Inl (ImportError m))) = (\<not> LLAMA_INDEX_AVAILABLE env))"
proof -
  have a: "\<not> LLAMA_INDEX_AVAILABLE env \<Longrightarrow> init env llm_config p = ([], Inl missing_dependency)"
    by (simp add: init_def)
  have b: "LLAMA_INDEX_AVAILABLE env \<Longrightarrow> init env llm_config p \<noteq> ([], x)" for x
    using init_trace [of env llm_config p] by auto
  show ?thesis using a b by (auto simp: missing_dependency_def)
qed

theorem init_missing_dependency_witness:
  "\<not> LLAMA_INDEX_AVAILABLE bare_env \<and>
   init bare_env example_config 1 = ([], Inl missing_dependency) \<and>
   LLAMA_INDEX_AVAILABLE example_env \<and>
   init example_env example_config 1 \<noteq> ([], Inl missing_dependency)"
  using init_missing_dependency [of bare_env example_config 1]
    init_missing_dependency [of example_env example_config 1]
  by (simp add: LLAMA_INDEX_AVAILABLE_def bare_env_def example_env_def)

section \<open>The document built by \<open>add_event\<close>\<close>

lemma add_event_threads:
  "add_threads (add_event env s event) =
     add_threads s @ [\<lparr>doc = new_doc env s event, stage = Acquire\<rparr>]"
  by (simp add: add_event_def new_doc_def Let_def split: prod.splits)

lemma add_event_thought_idx:
  "thought_idx (add_event env s event) = thought_idx s + 1"
  by (simp add: add_event_def Let_def split: prod.splits)

lemma add_event_sema:
  "sema (add_event env s event) = sema s"
  by (simp add: add_event_def Let_def split: prod.splits)

lemma new_doc_fields:
  "doc_text (new_doc env s event) = json_dumps env event \<and>
   doc_id (new_doc env s event) = str_int (thought_idx s) \<and>
   info_idx (new_doc env s event) = thought_idx s \<and>
   info_type (new_doc env s event) =
     (if event ''action'' \<noteq> None then ''action''
      else if event ''observation'' \<noteq> None then ''observation'' else '''') \<and>
   info_id (new_doc env s event) =
     (if event ''action'' \<noteq> None then the (event ''action'')
      else if event ''observation'' \<noteq> None then the (event ''observation'') else PStr '''')"
  by (simp add: add_event_def new_doc_def Let_def split: prod.splits)

text \<open>
  Claim C4, as stated, fails: the kind tag is not the value found under the key. For the
  event \<open>{"action": "run_command"}\<close> the tag of the document is \<open>action\<close>, the name
  of the key, while the value under the key is \<open>run_command\<close>.
\<close>

theorem kind_tag_is_not_the_value:
  "action_event ''action'' = Some (PStr ''run_command'') \<and>
   info_type (new_doc example_env (fresh 1) action_event) = ''action'' \<and>
   info_id (new_doc example_env (fresh 1) action_event) = PStr ''run_command'' \<and>
   PStr (info_type (new_doc example_env (fresh 1) action_event)) \<noteq>
     the (action_event ''action'')"
  by (simp add: new_doc_fields action_event_def)

text \<open>
  Claim C4, amended. \<open>add_event\<close> looks for the key \<open>action\<close> first and for the key
  \<open>observation\<close> second. When one of them is present, the kind tag of the document is the
  name of that key and the source id is the value stored under it; when neither is
  present, both are the empty text.
\<close>

theorem add_event_kind_and_id:
  "(event ''action'' = Some v \<longrightarrow>
      info_type (new_doc env s event) = ''action'' \<and> info_id (new_doc env s event) = v) \<and>
   (event ''action'' = None \<and> event ''observation'' = Some v \<longrightarrow>
      info_type (new_doc env s event) = ''observation'' \<and> info_id (new_doc env s event) = v) \<and>
   (event ''action'' = None \<and> event ''observation'' = None \<longrightarrow>
      info_type (new_doc env s event) = '''' \<and> info_id (new_doc env s event) = PStr '''')"
  by (simp add: new_doc_fields)

theorem add_event_kind_and_id_witness:
  "info_type (new_doc example_env (fresh 1) action_event) = ''action'' \<and>
   info_id (new_doc example_env (fresh 1) action_event) = PStr ''run_command'' \<and>
   info_type (new_doc example_env (fresh 1) observation_event) = ''observation'' \<and>
   info_id (new_doc example_env (fresh 1) observation_event) = PStr ''output: ok'' \<and>
   info_type (new_doc example_env (fresh 1) Map.empty) = '''' \<and>
   info_id (new_doc example_env (fresh 1) Map.empty) = PStr '''' \<and>
   info_type (new_doc example_env (fresh 1)
     [''observation'' \<mapsto> PStr ''seen'', ''action'' \<mapsto> PStr ''read'']) = ''action''"
  using add_event_kind_and_id [of action_event "PStr ''run_command''" example_env "fresh 1"]
    add_event_kind_and_id [of observation_event "PStr ''output: ok''" example_env "fresh 1"]
    add_event_kind_and_id [of Map.empty PNone example_env "fresh 1"]
    add_event_kind_and_id [of "[''observation'' \<mapsto> PStr ''seen'', ''action'' \<mapsto> PStr ''read'']"
      "PStr ''read''" example_env "fresh 1"]
  by (simp add: action_event_def observation_event_def)

text \<open>
  Claim C5. A call of \<open>add_event\<close> starts exactly one thread, with exactly one new
  document, whose body is the serialization of the whole event. On a freshly constructed
  object, \<open>add_event({"action": "run_command"})\<close> followed by
  \<open>add_event({"observation": "output: ok"})\<close> gives two documents with the metadata
  \<open>("action", "run_command", 0)\<close> and \<open>("observation", "output: ok", 1)\<close>.
\<close>

theorem add_event_document:
  "add_threads (add_event env s event) =
     add_threads s @ [\<lparr>doc = new_doc env s event, stage = Acquire\<rparr>] \<and>
   doc_text (new_doc env s event) = json_dumps env event \<and>
   (init env llm_config p = (tr, Inr s0) \<longrightarrow>
      metadata (add_event env (add_event env s0 action_event) observation_event) =
        [(''action'', PStr ''run_command'', 0), (''observation'', PStr ''output: ok'', 1)])"
proof -
  have "metadata (add_event env (add_event env s0 action_event) observation_event) =
        [(''action'', PStr ''run_command'', 0), (''observation'', PStr ''output: ok'', 1)]"
    if i: "init env llm_config p = (tr, Inr s0)"
  proof -
    have f: "thought_idx s0 = 0" "add_threads s0 = []"
      using init_fresh [OF i] by (simp_all add: fresh_def)
    show ?thesis
      by (simp add: metadata_def add_event_threads new_doc_fields add_event_thought_idx f
          action_event_def observation_event_def)
  qed
  then show ?thesis by (simp add: add_event_threads new_doc_fields)
qed

theorem add_event_document_witness:
  "init example_env example_config 1 = (example_trace, Inr (fresh 1)) \<and>
   metadata (add_event example_env (add_event example_env (fresh 1) action_event)
     observation_event) =
     [(''action'', PStr ''run_command'', 0), (''observation'', PStr ''output: ok'', 1)] \<and>
   doc_text (new_doc example_env (fresh 1) action_event) = ''action=run_command''"
  using add_event_document [of example_env "fresh 1" action_event example_config 1
      example_trace "fresh 1"] init_example
  by (simp add: example_env_def example_dumps_def action_event_def)

section \<open>Runs: the sequence counter\<close>

lemma move_docs:
  "i < length (add_threads s) \<Longrightarrow> map doc (add_threads (move s i p)) = map doc (add_threads s)"
  by (simp add: move_def map_update list_update_same_conv)

lemma move_other:
  "thought_idx (move s i p) = thought_idx s" "sema (move s i p) = sema s"
  "length (add_threads (move s i p)) = length (add_threads s)"
  by (simp_all add: move_def)

lemma exec_docs:
  assumes "exec env s a = Some s'"
  shows "map doc (add_threads s') =
           map doc (add_threads s) @ map (new_doc env s) (calls [a]) \<and>
         thought_idx s' = thought_idx s + int (length (calls [a]))"
proof (cases a)
  case (CallAddEvent event)
  with assms show ?thesis by (auto simp: add_event_threads add_event_thought_idx)
next
  case (Enter i)
  with assms show ?thesis by (auto simp: move_docs move_other split: if_splits)
next
  case (InsertReturns i)
  with assms show ?thesis by (auto simp: move_docs move_other split: if_splits)
next
  case (InsertRaises i e)
  with assms show ?thesis by (auto simp: move_docs move_other split: if_splits)
next
  case (Leave i)
  with assms show ?thesis by (auto simp: move_docs move_other split: if_splits pc.splits)
qed

lemma calls_Cons: "calls (a # as) = calls [a] @ calls as"
  by (cases a) simp_all

lemma exec_length:
  assumes "exec env s a = Some s'"
  shows "length (add_threads s') = length (add_threads s) + length (calls [a])"
proof -
  have "length (map doc (add_threads s')) =
      length (map doc (add_threads s) @ map (new_doc env s) (calls [a]))"
    using exec_docs [OF assms] by simp
  then show ?thesis by simp
qed

lemma exec_numbered:
  assumes e: "exec env s a = Some s'" and n: "numbered s"
  shows "numbered s'"
proof -
  have d: "map doc (add_threads s') = map doc (add_threads s) @ map (new_doc env s) (calls [a])"
    and t: "thought_idx s' = thought_idx s + int (length (calls [a]))"
    using exec_docs [OF e] by simp_all
  have l: "length (add_threads s') = length (add_threads s) + length (calls [a])"
    by (rule exec_length [OF e])
  have "map (info_idx \<circ> doc) (add_threads s') = map info_idx (map doc (add_threads s'))"
    by simp
  also have "\<dots> = map (info_idx \<circ> doc) (add_threads s) @ map (info_idx \<circ> new_doc env s) (calls [a])"
    unfolding d by simp
  also have "\<dots> = map int [0..<length (add_threads s)] @ map (info_idx \<circ> new_doc env s) (calls [a])"
    using n by (simp add: numbered_def)
  also have "\<dots> = map int [0..<length (add_threads s) + length (calls [a])]"
    using n by (cases a) (simp_all add: new_doc_fields numbered_def)
  finally have "map (info_idx \<circ> doc) (add_threads s') = map int [0..<length (add_threads s')]"
    unfolding l .
  moreover have "thought_idx s' = int (length (add_threads s'))"
    using n t l by (simp add: numbered_def)
  ultimately show ?thesis by (simp add: numbered_def)
qed

lemma exec_texts:
  assumes e: "exec env s a = Some s'"
  shows "map (doc_text \<circ> doc) (add_threads s') =
     map (doc_text \<circ> doc) (add_threads s) @ map (json_dumps env) (calls [a])"
proof -
  have d: "map doc (add_threads s') = map doc (add_threads s) @ map (new_doc env s) (calls [a])"
    using exec_docs [OF e] by simp
  have "map (doc_text \<circ> doc) (add_threads s') = map doc_text (map doc (add_threads s'))"
    by simp
  also have "\<dots> = map (doc_text \<circ> doc) (add_threads s) @ map (doc_text \<circ> new_doc env s) (calls [a])"
    unfolding d by simp
  also have "map (doc_text \<circ> new_doc env s) (calls [a]) = map (json_dumps env) (calls [a])"
    by (simp add: new_doc_fields)
  finally show ?thesis .
qed

lemma run_Cons:
  "run env s (a # as) = Some s' \<Longrightarrow> \<exists>s1. exec env s a = Some s1 \<and> run env s1 as = Some s'"
  by (cases "exec env s a") simp_all

lemma run_numbered:
  "run env s acts = Some s' \<Longrightarrow> numbered s \<Longrightarrow> numbered s'"
proof (induction acts arbitrary: s)
  case Nil
  then show ?case by simp
next
  case (Cons a as)
  from run_Cons [OF Cons.prems(1)] obtain s1
    where e: "exec env s a = Some s1" and r: "run env s1 as = Some s'" by blast
  show ?case by (rule Cons.IH [OF r exec_numbered [OF e Cons.prems(2)]])
qed

lemma run_texts:
  "run env s acts = Some s' \<Longrightarrow>
     map (doc_text \<circ> doc) (add_threads s') =
       map (doc_text \<circ> doc) (add_threads s) @ map (json_dumps env) (calls acts)"
proof (induction acts arbitrary: s)
  case Nil
  then show ?case by simp
next
  case (Cons a as)
  from run_Cons [OF Cons.prems(1)] obtain s1
    where e: "exec env s a = Some s1" and r: "run env s1 as = Some s'" by blast
  have "map (doc_text \<circ> doc) (add_threads s') =
      (map (doc_text \<circ> doc) (add_threads s) @ map (json_dumps env) (calls [a])) @
      map (json_dumps env) (calls as)"
    by (simp only: Cons.IH [OF r] exec_texts [OF e])
  also have "\<dots> = map (doc_text \<circ> doc) (add_threads s) @ map (json_dumps env) (calls [a] @ calls as)"
    by simp
  also have "calls [a] @ calls as = calls (a # as)"
    by (rule calls_Cons [symmetric])
  finally show ?case .
qed

lemma str_int_0: "str_int 0 = ''0''"
  by (simp add: str_int_def digit_char_def)

lemma str_int_1: "str_int 1 = ''1''"
  by (simp add: str_int_def digit_char_def)

lemma run_example: "run example_env (fresh 1) example_schedule = Some example_state"
  by (simp add: example_schedule_def example_state_def fresh_def add_event_def move_def
      action_event_def observation_event_def example_env_def example_dumps_def
      str_int_0 str_int_1 Let_def)

lemma run_example_blocked: "run example_env (fresh 1) (example_schedule @ [Enter 1]) = None"
  by (simp add: example_schedule_def fresh_def add_event_def move_def
      action_event_def observation_event_def example_env_def example_dumps_def
      str_int_0 str_int_1 Let_def)

text \<open>
  Claim C3. In every run that starts from a freshly constructed object, however the
  moves of the insertion threads are interleaved with the calls, the documents of the
  calls of \<open>add_event\<close> carry the sequence indices \<open>0, 1, ..., n - 1\<close> in call order,
  where \<open>n\<close> is the number of calls; the \<open>i\<close>-th document is the one built from the
  \<open>i\<close>-th event; and the counter ends at \<open>n\<close>. Each call stamps its document with
  the current value of the counter and adds one to the counter.
\<close>

theorem sequence_indices:
  "init env llm_config p = (tr, Inr s0) \<Longrightarrow> run env s0 acts = Some s \<Longrightarrow>
     length (add_threads s) = length (calls acts) \<and>
     map (info_idx \<circ> doc) (add_threads s) = map int [0..<length (calls acts)] \<and>
     map (doc_text \<circ> doc) (add_threads s) = map (json_dumps env) (calls acts) \<and>
     thought_idx s = int (length (calls acts)) \<and>
     info_idx (new_doc env s event) = thought_idx s \<and>
     thought_idx (add_event env s event) = thought_idx s + 1"
proof -
  assume i: "init env llm_config p = (tr, Inr s0)" and r: "run env s0 acts = Some s"
  have f: "thought_idx s0 = 0" "add_threads s0 = []"
    using init_fresh [OF i] by (simp_all add: fresh_def)
  have n0: "numbered s0" using f by (simp add: numbered_def)
  have n: "numbered s" by (rule run_numbered [OF r n0])
  have b: "map (doc_text \<circ> doc) (add_threads s) = map (json_dumps env) (calls acts)"
    using run_texts [OF r] f by simp
  have "length (map (doc_text \<circ> doc) (add_threads s)) = length (map (json_dumps env) (calls acts))"
    unfolding b ..
  then have l: "length (add_threads s) = length (calls acts)" by simp
  show ?thesis
    using n b l by (simp add: numbered_def new_doc_fields add_event_thought_idx)
qed

theorem sequence_indices_witness:
  "init example_env example_config 1 = (example_trace, Inr (fresh 1)) \<and>
   run example_env (fresh 1) example_schedule = Some example_state \<and>
   calls example_schedule = [action_event, observation_event] \<and>
   map (info_idx \<circ> doc) (add_threads example_state) = [0, 1] \<and>
   thought_idx example_state = 2"
  using sequence_indices [OF init_example run_example] init_example run_example
  by (simp add: example_schedule_def example_state_def)

section \<open>Runs: the semaphore\<close>

lemma length_filter_update:
  "i < length xs \<Longrightarrow>
   int (length (filter P (xs[i := y]))) =
     int (length (filter P xs)) - (if P (xs ! i) then 1 else 0) + (if P y then 1 else 0)"
proof (induction xs arbitrary: i)
  case Nil
  then show ?case by simp
next
  case (Cons x xs)
  show ?case
  proof (cases i)
    case 0
    then show ?thesis by simp
  next
    case (Suc j)
    with Cons.prems have "j < length xs" by simp
    from Cons.IH [OF this] Suc show ?thesis by (auto split: if_splits)
  qed
qed

lemma length_filter_mono:
  "(\<And>x. P x \<Longrightarrow> Q x) \<Longrightarrow> length (filter P xs) \<le> length (filter Q xs)"
  by (induction xs) auto

lemma inserting_le_holding: "inserting s \<le> holding s"
  unfolding inserting_def holding_def
  by (rule length_filter_mono) simp

lemma holding_move:
  "i < length (add_threads s) \<Longrightarrow>
   int (holding (move s i p)) =
     int (holding s) - (if holds_permit (stage (add_threads s ! i)) then 1 else 0) +
     (if holds_permit p then 1 else 0)"
  by (simp add: holding_def move_def length_filter_update)

lemma holding_add_event: "holding (add_event env s event) = holding s"
  by (simp add: holding_def add_event_threads)

lemma holding_upd:
  "holding (s\<lparr>sema := x\<rparr>) = holding s" "holding (s\<lparr>index := y\<rparr>) = holding s"
  by (simp_all add: holding_def)

lemma exec_permits:
  assumes e: "exec env s a = Some s'" and ok: "permits_ok p s"
  shows "permits_ok p s'"
proof (cases a)
  case (CallAddEvent event)
  with e ok show ?thesis
    by (auto simp: permits_ok_def holding_add_event add_event_sema)
next
  case (Enter i)
  with e ok show ?thesis
    by (auto simp: permits_ok_def holding_upd holding_move move_other split: if_splits)
next
  case (InsertReturns i)
  with e ok show ?thesis
    by (auto simp: permits_ok_def holding_upd holding_move move_other split: if_splits)
next
  case (InsertRaises i x)
  with e ok show ?thesis
    by (auto simp: permits_ok_def holding_upd holding_move move_other split: if_splits)
next
  case (Leave i)
  with e ok show ?thesis
    by (auto simp: permits_ok_def holding_upd holding_move move_other split: if_splits pc.splits)
qed

lemma run_permits:
  "run env s acts = Some s' \<Longrightarrow> permits_ok p s \<Longrightarrow> permits_ok p s'"
proof (induction acts arbitrary: s)
  case Nil
  then show ?case by simp
next
  case (Cons a as)
  from run_Cons [OF Cons.prems(1)] obtain s1
    where e: "exec env s a = Some s1" and r: "run env s1 as = Some s'" by blast
  show ?case by (rule Cons.IH [OF r exec_permits [OF e Cons.prems(2)]])
qed

text \<open>
  Claim C2. In every run that starts from an object constructed with
  \<open>memory_max_threads = p\<close>, the number of threads executing the index write never
  exceeds \<open>p\<close>: the threads inside the \<open>with\<close> block and the permits left always add
  up to \<open>p\<close>, and the permits left are never negative. With \<open>p = 1\<close> at most one
  insert executes at any time.
\<close>

theorem semaphore_bounds_inserts:
  "init env llm_config p = (tr, Inr s0) \<Longrightarrow> run env s0 acts = Some s \<Longrightarrow>
     int (inserting s) \<le> p \<and> int (holding s) + sema s = p \<and> 0 \<le> sema s \<and>
     (p = 1 \<longrightarrow> inserting s \<le> 1)"
proof -
  assume i: "init env llm_config p = (tr, Inr s0)" and r: "run env s0 acts = Some s"
  have "s0 = fresh p" "0 \<le> p" using init_fresh [OF i] by simp_all
  then have "permits_ok p s0" by (simp add: permits_ok_def fresh_def holding_def)
  from run_permits [OF r this] have ok: "int (holding s) + sema s = p" "0 \<le> sema s"
    by (simp_all add: permits_ok_def)
  have "int (inserting s) \<le> int (holding s)" using inserting_le_holding [of s] by simp
  with ok show ?thesis by auto
qed

theorem semaphore_bounds_inserts_witness:
  "init example_env example_config 1 = (example_trace, Inr (fresh 1)) \<and>
   run example_env (fresh 1) example_schedule = Some example_state \<and>
   inserting example_state = 1 \<and> holding example_state = 1 \<and> sema example_state = 0 \<and>
   run example_env (fresh 1) (example_schedule @ [Enter 1]) = None"
  using semaphore_bounds_inserts [OF init_example run_example] init_example run_example
    run_example_blocked
  by (simp add: inserting_def holding_def example_state_def)

section \<open>\<open>search\<close>\<close>



end
